theory Spec2Isabelle
  imports Complex_Main "HOL-Library.AList" "HOL-Library.Char_ord"
begin

section \<open>The openings route: data model\<close>

text \<open>
  The route handler \<^verbatim>\<open>GET\<close> of \<^verbatim>\<open>src/app/api/openings/route.ts\<close> obtains a bearer
  token, pages through the job requisitions of the upstream listing endpoint and regroups
  them by department.
\<close>

text \<open>
  Modelled from the spec: the type declarations \<^verbatim>\<open>types/requisition\<close> and
  \<^verbatim>\<open>types/opening\<close>, which the route imports, are not among the sources.  The records
  below hold the fields of the specification's data model (section 3) that the route reads
  or writes.  A field is optional where the route guards its access (\<^verbatim>\<open>??\<close>,
  \<^verbatim>\<open>?.\<close> or a truthiness test) and required where it reads it bare.  A nested object
  that the route only passes through is flattened into the field name:
  \<^verbatim>\<open>nameCode.shortName\<close> is \<open>nameCode_shortName\<close>.
\<close>

record link =
  title :: string
  href :: string

record organizationalUnit =
  nameCode_shortName :: "string option"

record postingInstruction =
  nameCode_codeValue :: string
  posting_expireDate :: "string option"

text \<open>
  \<open>address_countrySubdivisionLevel1_codeValue\<close> is \<open>None\<close> when
  \<^verbatim>\<open>countrySubdivisionLevel1\<close> or its \<^verbatim>\<open>codeValue\<close> is missing; likewise
  \<open>workerTypeCode_shortName\<close> of a requisition.
\<close>

record requisitionLocation =
  address_cityName :: string
  address_countrySubdivisionLevel1_codeValue :: "string option"
  address_countryCode :: string

record jobRequisition =
  organizationalUnits :: "organizationalUnit list"
  postingInstructions :: "postingInstruction list"
  requisitionLocations :: "requisitionLocation list"
  workerTypeCode_shortName :: "string option"
  links :: "link list"

text \<open>
  One page of the listing endpoint, and also the consolidated value that the fetch returns:
  \<^verbatim>\<open>{ jobRequisitions, meta: { totalNumber } }\<close>.  \<^verbatim>\<open>totalNumber\<close> is the number
  that the route compares with its offset, an integer here; as a count of records it is
  not negative, which the properties that need it assume.
\<close>

record Requisition =
  jobRequisitions :: "jobRequisition list"
  meta_totalNumber :: int

text \<open>The object literal pushed at lines 143 to 151.\<close>

record Opening =
  jobTitle :: string
  openingLink :: string
  cityName :: string
  codeValue :: string
  countryCode :: string
  workerTypeCode :: string
  expireDate :: "string option"

text \<open>
  \<^verbatim>\<open>jobMap\<close> is a plain object used as a dictionary.  Its own properties are kept in
  creation order, which is the order of the association list.
\<close>

type_synonym Opening_map = "(string \<times> Opening list) list"

subsection \<open>Errors and HTTP values\<close>

text \<open>
  What axios rejects with: a message and, when the server answered, the response with its
  status and body.
\<close>

record upstream_response =
  response_status :: nat
  response_data :: string

record axios_error =
  axios_message :: string
  axios_response :: "upstream_response option"

datatype 'a axios_result = Resolved 'a | Rejected axios_error

text \<open>
  The exceptions of the route.  Those that can reach the \<^verbatim>\<open>catch\<close> of the handler are
  an axios error of a page request, the plain \<^verbatim>\<open>Error\<close> that
  \<^verbatim>\<open>getAccessToken\<close> throws, and a \<^verbatim>\<open>TypeError\<close> of the transform.  The
  construction of a response can throw a \<^verbatim>\<open>TypeError\<close> or a \<^verbatim>\<open>RangeError\<close>.
\<close>

datatype js_error =
  AxiosError axios_error | Error string | TypeError string | RangeError string

fun message :: "js_error \<Rightarrow> string" where
  "message (AxiosError e) = axios_message e"
| "message (Error m) = m"
| "message (TypeError m) = m"
| "message (RangeError m) = m"

text \<open>\<^verbatim>\<open>axiosError.response?.status\<close>: only an axios error can carry a response.\<close>

fun response_status_of :: "js_error \<Rightarrow> nat option" where
  "response_status_of (AxiosError e) = map_option response_status (axios_response e)"
| "response_status_of (Error m) = None"
| "response_status_of (TypeError m) = None"
| "response_status_of (RangeError m) = None"

datatype json_body = ErrorBody string | OpeningsBody "(string \<times> Opening list) list"

record json_response =
  body :: json_body
  status :: nat

text \<open>
  \<^verbatim>\<open>NextResponse.json(body, { status })\<close> builds the response with
  \<^verbatim>\<open>Response.json\<close>, whose initialisation (Fetch standard, "initialize a response")
  refuses some statuses: it throws a \<^verbatim>\<open>RangeError\<close> for a status outside 200 to 599,
  and, the body being present, a \<^verbatim>\<open>TypeError\<close> for a null body status, which within
  that range is 204, 205 or 304.  The messages are those of Node.
\<close>

definition NextResponse_json :: "json_body \<Rightarrow> nat \<Rightarrow> js_error + json_response" where
  \<open>NextResponse_json b st =
     (if st < 200 \<or> 599 < st
      then Inl (RangeError ''init["status"] must be in the range of 200 to 599, inclusive.'')
      else if st = 204
      then Inl (TypeError ''Response constructor: Invalid response status code 204'')
      else if st = 205
      then Inl (TypeError ''Response constructor: Invalid response status code 205'')
      else if st = 304
      then Inl (TypeError ''Response constructor: Invalid response status code 304'')
      else Inr \<lparr>body = b, status = st\<rparr>)\<close>

section \<open>Token acquisition\<close>

text \<open>
  \<^verbatim>\<open>getAccessToken\<close> (lines 88 to 110).  The outcome of the single POST to the token
  endpoint is a parameter; a resolved response carries the \<^verbatim>\<open>access_token\<close>.  Whatever
  the request rejects with is caught and replaced by a fresh \<^verbatim>\<open>Error\<close>.
\<close>

definition getAccessToken :: "string axios_result \<Rightarrow> js_error + string" where
  "getAccessToken token_post =
     (case token_post of
        Resolved access_token \<Rightarrow> Inr access_token
      | Rejected e \<Rightarrow> Inl (Error ''Failed to retrieve access token''))"

section \<open>Paginated fetch\<close>

text \<open>
  The \<^verbatim>\<open>do ... while\<close> loop of lines 39 to 61.  \<open>listing token skip\<close> is the outcome of
  the GET request that carries the bearer \<open>token\<close> and \<^verbatim>\<open>$skip=skip\<close> (with the fixed
  \<^verbatim>\<open>$filter\<close> and \<^verbatim>\<open>$top=20\<close>).  The loop state is \<open>skip\<close> and
  \<open>allRequisitions\<close>; \<open>requests\<close> records the \<^verbatim>\<open>$skip\<close> values of the requests issued
  so far.  A rejected request throws out of the loop.  Nothing bounds the number of
  iterations when the upstream keeps reporting a larger total, so the loop is a partial
  function: \<open>None\<close> is a run that never returns.
\<close>

partial_function (option) fetch_loop ::
  "(string \<Rightarrow> nat \<Rightarrow> Requisition axios_result) \<Rightarrow> string \<Rightarrow> nat \<Rightarrow> jobRequisition list \<Rightarrow>
     nat list \<Rightarrow> ((js_error + Requisition) \<times> nat list) option" where
  "fetch_loop listing token skip allRequisitions requests =
     (case listing token skip of
        Rejected e \<Rightarrow> Some (Inl (AxiosError e), requests @ [skip])
      | Resolved batchData \<Rightarrow>
          (if int (skip + 20) < meta_totalNumber batchData
           then fetch_loop listing token (skip + 20)
                  (allRequisitions @ jobRequisitions batchData) (requests @ [skip])
           else Some (Inr \<lparr>jobRequisitions = allRequisitions @ jobRequisitions batchData,
                          meta_totalNumber = meta_totalNumber batchData\<rparr>,
                      requests @ [skip])))"

text \<open>
  The function passed to \<^verbatim>\<open>unstable_cache\<close> (lines 13 to 68): token first, then the loop
  from \<open>skip = 0\<close> with nothing accumulated.  The cache around it belongs to the framework
  and is left out: every call computes.
\<close>

definition fetchJobRequisitions ::
  "string axios_result \<Rightarrow> (string \<Rightarrow> nat \<Rightarrow> Requisition axios_result) \<Rightarrow>
     ((js_error + Requisition) \<times> nat list) option" where
  "fetchJobRequisitions token_post listing =
     (case getAccessToken token_post of
        Inl e \<Rightarrow> Some (Inl e, [])
      | Inr token \<Rightarrow> fetch_loop listing token 0 [] [])"

section \<open>The transform\<close>

subsection \<open>The expressions of the callback\<close>

text \<open>Lines 117 and 118, once the first organizational unit is at hand.\<close>

definition department_of :: "organizationalUnit \<Rightarrow> string" where
  "department_of ou = (case nameCode_shortName ou of None \<Rightarrow> ''Others'' | Some n \<Rightarrow> n)"

text \<open>Lines 120 to 123; \<^const>\<open>List.find\<close> is \<^verbatim>\<open>Array.prototype.find\<close>.\<close>

definition openingLink_of :: "link list \<Rightarrow> string" where
  "openingLink_of ls =
     (case List.find (\<lambda>link. title link = ''HL External Career Center'') ls of
        None \<Rightarrow> ''''
      | Some link \<Rightarrow> href link)"

text \<open>
  The test of line 135, \<^verbatim>\<open>expireDate && new Date(expireDate) < currentDate\<close>.  A missing
  date and the empty string are falsy.  \<open>Date_parse\<close> is the time value (milliseconds since
  the epoch) that the \<^verbatim>\<open>Date\<close> constructor of the runtime gives a string, \<open>None\<close> for an
  invalid date, whose time value \<^verbatim>\<open>NaN\<close> is smaller than nothing.
\<close>

definition expired :: "(string \<Rightarrow> int option) \<Rightarrow> int \<Rightarrow> string option \<Rightarrow> bool" where
  "expired Date_parse currentDate d =
     (case d of
        None \<Rightarrow> False
      | Some s \<Rightarrow> s \<noteq> [] \<and> (case Date_parse s of None \<Rightarrow> False | Some t \<Rightarrow> t < currentDate))"

subsection \<open>Reading one requisition\<close>

text \<open>
  Lines 117 to 137 of the callback, in the order of the source: what the callback is about to
  push and under which department, \<open>None\<close> when it returns early.  Indexing an empty array
  gives \<^verbatim>\<open>undefined\<close>, and reading a property of \<^verbatim>\<open>undefined\<close> throws a
  \<^verbatim>\<open>TypeError\<close> (the messages are those of V8).
\<close>

definition callback_read ::
  "(string \<Rightarrow> int option) \<Rightarrow> int \<Rightarrow> jobRequisition \<Rightarrow> js_error + (string \<times> Opening) option" where
  "callback_read Date_parse currentDate jr =
     (case organizationalUnits jr of
        [] \<Rightarrow> Inl (TypeError ''Cannot read properties of undefined (reading 'nameCode')'')
      | ou # _ \<Rightarrow>
          if department_of ou = ''All'' then Inr None
          else
            (case postingInstructions jr of
               [] \<Rightarrow> Inl (TypeError ''Cannot read properties of undefined (reading 'nameCode')'')
             | p # _ \<Rightarrow>
                 (case requisitionLocations jr of
                    [] \<Rightarrow> Inl (TypeError ''Cannot read properties of undefined (reading 'address')'')
                  | loc # _ \<Rightarrow>
                      if expired Date_parse currentDate (posting_expireDate p) then Inr None
                      else Inr (Some (department_of ou,
                        \<lparr>jobTitle = nameCode_codeValue p,
                         openingLink = openingLink_of (links jr),
                         cityName = address_cityName loc,
                         codeValue =
                           (case address_countrySubdivisionLevel1_codeValue loc of
                              None \<Rightarrow> '''' | Some c \<Rightarrow> c),
                         countryCode = address_countryCode loc,
                         workerTypeCode =
                           (case workerTypeCode_shortName jr of None \<Rightarrow> '''' | Some w \<Rightarrow> w),
                         expireDate = posting_expireDate p\<rparr>)))))"

subsection \<open>Writing into the job map\<close>

text \<open>
  \<^verbatim>\<open>jobMap\<close> is created by \<^verbatim>\<open>{}\<close>, so a key it does not own is looked up in
  \<^verbatim>\<open>Object.prototype\<close>.  The names below are the properties found there; each is a
  function or an object, hence truthy and without a \<^verbatim>\<open>push\<close> method.
\<close>

definition Object_prototype_keys :: "string list" where
  "Object_prototype_keys =
     [''constructor'', ''__defineGetter__'', ''__defineSetter__'', ''hasOwnProperty'',
      ''__lookupGetter__'', ''__lookupSetter__'', ''isPrototypeOf'', ''propertyIsEnumerable'',
      ''toString'', ''valueOf'', ''__proto__'', ''toLocaleString'']"

datatype property = Undefined | Own "Opening list" | Inherited

definition jobMap_get :: "Opening_map \<Rightarrow> string \<Rightarrow> property" where
  "jobMap_get jm k =
     (case map_of jm k of
        Some v \<Rightarrow> Own v
      | None \<Rightarrow> if k \<in> set Object_prototype_keys then Inherited else Undefined)"

text \<open>
  Lines 139 to 151.  An assignment to a key that the object does not own creates the
  property after the existing ones; \<open>AList.update\<close> does that, and replaces the value in
  place otherwise.  \<^verbatim>\<open>push\<close> on an inherited value is a call of \<^verbatim>\<open>undefined\<close>.
\<close>

definition callback_write :: "Opening_map \<Rightarrow> string \<Rightarrow> Opening \<Rightarrow> js_error + Opening_map" where
  "callback_write jm department item =
     (let jm1 = (case jobMap_get jm department of
                   Undefined \<Rightarrow> AList.update department [] jm
                 | _ \<Rightarrow> jm)
      in case jobMap_get jm1 department of
           Own v \<Rightarrow> Inr (AList.update department (v @ [item]) jm1)
         | _ \<Rightarrow> Inl (TypeError ''jobMap[department].push is not a function''))"

subsection \<open>The loop over the requisitions\<close>

text \<open>
  The state that the callback runs in: the argument object \<open>openings\<close>, as the caller holds
  it, and the local \<open>jobMap\<close>.
\<close>

record transform_state =
  openings :: Requisition
  jobMap :: Opening_map

definition callback ::
  "(string \<Rightarrow> int option) \<Rightarrow> int \<Rightarrow> jobRequisition \<Rightarrow> transform_state \<Rightarrow> js_error + transform_state" where
  "callback Date_parse currentDate jr s =
     (case callback_read Date_parse currentDate jr of
        Inl e \<Rightarrow> Inl e
      | Inr None \<Rightarrow> Inr s
      | Inr (Some (department, item)) \<Rightarrow>
          (case callback_write (jobMap s) department item of
             Inl e \<Rightarrow> Inl e
           | Inr jm \<Rightarrow> Inr (s\<lparr>jobMap := jm\<rparr>)))"

text \<open>
  \<^verbatim>\<open>Array.prototype.forEach\<close> visits the indices below the length taken at the start and
  reads each element from the array as it is at that moment.  An exception of the callback
  ends the loop; the state reached is returned with it.
\<close>

primrec forEach ::
  "(jobRequisition \<Rightarrow> transform_state \<Rightarrow> js_error + transform_state) \<Rightarrow> nat list \<Rightarrow>
     transform_state \<Rightarrow> js_error \<times> transform_state + transform_state" where
  "forEach cb [] s = Inr s"
| "forEach cb (k # ks) s =
     (if k < length (jobRequisitions (openings s))
      then (case cb (jobRequisitions (openings s) ! k) s of
              Inl e \<Rightarrow> Inl (e, s)
            | Inr s' \<Rightarrow> forEach cb ks s')
      else forEach cb ks s)"

text \<open>
  \<^verbatim>\<open>restructureOpenings\<close> (lines 112 to 154), with the current date as a parameter.  The
  result is the returned map, or the exception thrown, together with the argument object as
  the call leaves it.
\<close>

definition restructureOpenings ::
  "(string \<Rightarrow> int option) \<Rightarrow> int \<Rightarrow> Requisition \<Rightarrow> (js_error + Opening_map) \<times> Requisition" where
  "restructureOpenings Date_parse currentDate arg =
     (case forEach (callback Date_parse currentDate) [0..<length (jobRequisitions arg)]
             \<lparr>openings = arg, jobMap = []\<rparr> of
        Inl (e, s) \<Rightarrow> (Inl e, openings s)
      | Inr s \<Rightarrow> (Inr (jobMap s), openings s))"

section \<open>The handler\<close>

text \<open>
  \<^verbatim>\<open>NextResponse.json\<close> serialises the returned object with \<^verbatim>\<open>JSON.stringify\<close>,
  which visits the keys as every enumeration of an ordinary object does (ECMA-262,
  OrdinaryOwnPropertyKeys): the keys that are array indices first, in ascending numeric
  order, then the other strings in the order of their creation.  An array index is a
  canonical numeric string, \<open>0\<close> or digits without a leading zero, whose value is below
  \<open>2^32 - 1\<close>.  So \<^verbatim>\<open>o = {}; o.b = 1; o["2"] = 2; o["1"] = 3\<close> has the keys
  \<^verbatim>\<open>1, 2, b\<close>.
\<close>

definition is_digit :: "char \<Rightarrow> bool" where
  "is_digit c \<longleftrightarrow> CHR ''0'' \<le> c \<and> c \<le> CHR ''9''"

definition digit_value :: "char \<Rightarrow> int" where
  "digit_value c = of_char c - of_char CHR ''0''"

definition index_value :: "string \<Rightarrow> int" where
  "index_value s = foldl (\<lambda>n c. 10 * n + digit_value c) 0 s"

definition is_array_index :: "string \<Rightarrow> bool" where
  "is_array_index s =
     (case s of
        [] \<Rightarrow> False
      | c # cs \<Rightarrow>
          list_all is_digit s \<and> (c \<noteq> CHR ''0'' \<or> cs = []) \<and> index_value s < 2 ^ 32 - 1)"

definition Object_entries :: "Opening_map \<Rightarrow> (string \<times> Opening list) list" where
  "Object_entries jm =
     sort_key (\<lambda>p. index_value (fst p)) (filter (\<lambda>p. is_array_index (fst p)) jm)
     @ filter (\<lambda>p. \<not> is_array_index (fst p)) jm"

text \<open>
  The \<^verbatim>\<open>catch\<close> of lines 79 to 85; \<^verbatim>\<open>||\<close> also replaces a status of 0.  What
  \<^verbatim>\<open>NextResponse.json\<close> throws here is thrown inside the \<^verbatim>\<open>catch\<close> block, so
  nothing catches it and it leaves the handler.
\<close>

definition error_response :: "js_error \<Rightarrow> js_error + json_response" where
  "error_response e =
     NextResponse_json (ErrorBody (message e))
       (case response_status_of e of
          None \<Rightarrow> 500
        | Some st \<Rightarrow> if st = 0 then 500 else st)"

text \<open>
  \<^verbatim>\<open>GET\<close> (lines 11 to 86): \<open>None\<close> when the fetch never returns; otherwise the response
  that the handler returns, or the exception that leaves it.
\<close>

definition GET ::
  "string axios_result \<Rightarrow> (string \<Rightarrow> nat \<Rightarrow> Requisition axios_result) \<Rightarrow>
     (string \<Rightarrow> int option) \<Rightarrow> int \<Rightarrow> (js_error + json_response) option" where
  "GET token_post listing Date_parse currentDate =
     (case fetchJobRequisitions token_post listing of
        None \<Rightarrow> None
      | Some (Inl e, requests) \<Rightarrow> Some (error_response e)
      | Some (Inr requisitions, requests) \<Rightarrow>
          (case fst (restructureOpenings Date_parse currentDate requisitions) of
             Inl e \<Rightarrow> Some (error_response e)
           | Inr jm \<Rightarrow> Some (NextResponse_json (OpeningsBody (Object_entries jm)) 200)))"

section \<open>The transform as a recursion over the list\<close>

text \<open>
  The callback never assigns to the argument object, so the loop of \<open>forEach\<close> amounts to
  a recursion over the list of requisitions with the job map as accumulator
  (\<open>forEach_group_from\<close> below proves it).  The properties of the transform are proved on
  this form.
\<close>

fun group_from ::
  "(string \<Rightarrow> int option) \<Rightarrow> int \<Rightarrow> Opening_map \<Rightarrow> jobRequisition list \<Rightarrow> js_error + Opening_map" where
  "group_from Date_parse currentDate jm [] = Inr jm"
| "group_from Date_parse currentDate jm (jr # rs) =
     (case callback_read Date_parse currentDate jr of
        Inl e \<Rightarrow> Inl e
      | Inr None \<Rightarrow> group_from Date_parse currentDate jm rs
      | Inr (Some (department, item)) \<Rightarrow>
          (case callback_write jm department item of
             Inl e \<Rightarrow> Inl e
           | Inr jm' \<Rightarrow> group_from Date_parse currentDate jm' rs))"

section \<open>Grouping, as the specification words it\<close>

text \<open>
  The pairs of department and opening that the requisitions give rise to, in input order:
  a requisition that is skipped contributes none, every other one contributes one.
\<close>

definition produced ::
  "(string \<Rightarrow> int option) \<Rightarrow> int \<Rightarrow> jobRequisition list \<Rightarrow> (string \<times> Opening) list" where
  "produced Date_parse currentDate rs =
     concat (map (\<lambda>jr. case callback_read Date_parse currentDate jr of
                          Inr (Some p) \<Rightarrow> [p]
                        | _ \<Rightarrow> []) rs)"

text \<open>The elements of a list in the order of their first occurrence.\<close>

fun first_encounter :: "'a list \<Rightarrow> 'a list" where
  "first_encounter [] = []"
| "first_encounter (x # xs) = x # first_encounter (filter (\<lambda>y. y \<noteq> x) xs)"

text \<open>The openings of one department, in input order, none dropped and none merged.\<close>

definition bucket :: "(string \<times> Opening) list \<Rightarrow> string \<Rightarrow> Opening list" where
  "bucket ps d = map snd (filter (\<lambda>p. fst p = d) ps)"

text \<open>
  The grouping of the specification: one entry for each department, in first-encounter
  order, holding the openings of that department.
\<close>

definition grouped :: "(string \<times> Opening) list \<Rightarrow> Opening_map" where
  "grouped ps = map (\<lambda>d. (d, bucket ps d)) (first_encounter (map fst ps))"

section \<open>Sample inputs\<close>

text \<open>A requisition of the engineering department that never expires.\<close>

definition sample_requisition :: jobRequisition where
  "sample_requisition =
     \<lparr>organizationalUnits = [\<lparr>nameCode_shortName = Some ''Engineering''\<rparr>],
      postingInstructions = [\<lparr>nameCode_codeValue = ''Developer'', posting_expireDate = None\<rparr>],
      requisitionLocations =
        [\<lparr>address_cityName = ''Berlin'', address_countrySubdivisionLevel1_codeValue = Some ''BE'',
          address_countryCode = ''DE''\<rparr>],
      workerTypeCode_shortName = Some ''Full Time'',
      links = [\<lparr>title = ''HL External Career Center'', href = ''https://example.org/1''\<rparr>]\<rparr>"

text \<open>An upstream holding 25 requisitions, served in pages of 20.\<close>

definition pages_25 :: "nat \<Rightarrow> jobRequisition list" where
  "pages_25 k = (if k = 0 then replicate 20 sample_requisition else replicate 5 sample_requisition)"

definition unavailable :: axios_error where
  "unavailable =
     \<lparr>axios_message = ''Request failed with status code 503'',
      axios_response = Some \<lparr>response_status = 503, response_data = ''upstream body''\<rparr>\<rparr>"

definition listing_25 :: "string \<Rightarrow> nat \<Rightarrow> Requisition axios_result" where
  "listing_25 token skip =
     (if skip = 0 \<or> skip = 20
      then Resolved \<lparr>jobRequisitions = pages_25 (skip div 20), meta_totalNumber = 25\<rparr>
      else Rejected unavailable)"

text \<open>An upstream that announces 45 requisitions and fails on the second page.\<close>

definition listing_failing :: "string \<Rightarrow> nat \<Rightarrow> Requisition axios_result" where
  "listing_failing token skip =
     (if skip = 0
      then Resolved \<lparr>jobRequisitions = replicate 20 sample_requisition, meta_totalNumber = 45\<rparr>
      else Rejected unavailable)"

text \<open>An upstream that announces 45 requisitions and answers the second page with 304.\<close>

definition not_modified :: axios_error where
  "not_modified =
     \<lparr>axios_message = ''Request failed with status code 304'',
      axios_response = Some \<lparr>response_status = 304, response_data = []\<rparr>\<rparr>"

definition listing_not_modified :: "string \<Rightarrow> nat \<Rightarrow> Requisition axios_result" where
  "listing_not_modified token skip =
     (if skip = 0
      then Resolved \<lparr>jobRequisitions = replicate 20 sample_requisition, meta_totalNumber = 45\<rparr>
      else Rejected not_modified)"

text \<open>A token endpoint that answers 401.\<close>

definition unauthorized :: axios_error where
  "unauthorized =
     \<lparr>axios_message = ''Request failed with status code 401'',
      axios_response = Some \<lparr>response_status = 401, response_data = ''invalid_client''\<rparr>\<rparr>"

text \<open>Variations of the sample: other departments, an expired posting, a missing array.\<close>

definition all_requisition :: jobRequisition where
  "all_requisition =
     sample_requisition\<lparr>organizationalUnits := [\<lparr>nameCode_shortName = Some ''All''\<rparr>]\<rparr>"

definition others_requisition :: jobRequisition where
  "others_requisition =
     sample_requisition\<lparr>organizationalUnits := [\<lparr>nameCode_shortName = None\<rparr>], links := []\<rparr>"

definition numbered_requisition :: jobRequisition where
  "numbered_requisition =
     sample_requisition\<lparr>organizationalUnits := [\<lparr>nameCode_shortName = Some ''7''\<rparr>]\<rparr>"

definition expired_requisition :: jobRequisition where
  "expired_requisition =
     sample_requisition\<lparr>postingInstructions :=
       [\<lparr>nameCode_codeValue = ''Tester'', posting_expireDate = Some ''2020-01-01''\<rparr>]\<rparr>"

definition malformed_requisition :: jobRequisition where
  "malformed_requisition = sample_requisition\<lparr>organizationalUnits := []\<rparr>"

definition linked_requisition :: jobRequisition where
  "linked_requisition =
     sample_requisition\<lparr>links :=
       [\<lparr>title = ''Internal Career Center'', href = ''https://example.org/0''\<rparr>,
        \<lparr>title = ''HL External Career Center'', href = ''https://example.org/1''\<rparr>,
        \<lparr>title = ''HL External Career Center'', href = ''https://example.org/2''\<rparr>]\<rparr>"

text \<open>The opening of the sample requisition, and the same without a link.\<close>

definition sample_opening :: Opening where
  "sample_opening =
     \<lparr>jobTitle = ''Developer'', openingLink = ''https://example.org/1'', cityName = ''Berlin'',
      codeValue = ''BE'', countryCode = ''DE'', workerTypeCode = ''Full Time'', expireDate = None\<rparr>"

definition unlinked_opening :: Opening where
  "unlinked_opening = sample_opening\<lparr>openingLink := []\<rparr>"

text \<open>
  A \<^verbatim>\<open>Date\<close> that knows one date string, the first of January 2020, and a current date
  in November 2023.
\<close>

definition sample_Date_parse :: "string \<Rightarrow> int option" where
  "sample_Date_parse s = (if s = ''2020-01-01'' then Some 1577836800000 else None)"

definition sample_currentDate :: int where
  "sample_currentDate = 1700000000000"

text \<open>An upstream that serves the given requisitions in one page.\<close>

definition listing_of :: "jobRequisition list \<Rightarrow> string \<Rightarrow> nat \<Rightarrow> Requisition axios_result" where
  "listing_of rs token skip =
     (if skip = 0
      then Resolved \<lparr>jobRequisitions = rs, meta_totalNumber = int (length rs)\<rparr>
      else Rejected unavailable)"


section \<open>Properties of the paginated fetch\<close>

text \<open>
  While every page up to \<open>j\<close> announces a total beyond the next offset, the loop goes on; a
  rejection at page \<open>j\<close> is then what the loop throws.
\<close>

lemma fetch_loop_rejected:
  assumes "\<forall>k. i \<le> k \<and> k < j \<longrightarrow>
             (\<exists>batch. listing token (20 * k) = Resolved batch \<and>
                      int (20 * (k + 1)) < meta_totalNumber batch)"
    and "listing token (20 * j) = Rejected e"
    and "i \<le> j"
  shows "fetch_loop listing token (20 * i) acc reqs =
           Some (Inl (AxiosError e), reqs @ map (\<lambda>k. 20 * k) [i..<Suc j])"
  using assms
proof (induction "j - i" arbitrary: i acc reqs)
  case 0
  then have "i = j" by simp
  with 0 show ?case
    by (subst fetch_loop.simps) simp
next
  case (Suc d)
  then have lt: "i < j" by simp
  with Suc.prems obtain batch where b: "listing token (20 * i) = Resolved batch"
    "int (20 * (i + 1)) < meta_totalNumber batch" by blast
  have IH: "fetch_loop listing token (20 * Suc i) (acc @ jobRequisitions batch) (reqs @ [20 * i]) =
      Some (Inl (AxiosError e), (reqs @ [20 * i]) @ map (\<lambda>k. 20 * k) [Suc i..<Suc j])"
    using Suc.hyps Suc.prems lt by (intro Suc.hyps(1)) auto
  have "[i..<Suc j] = i # [Suc i..<Suc j]" using lt by (simp add: upt_conv_Cons)
  with b IH show ?case
    by (subst fetch_loop.simps) (simp add: algebra_simps)
qed

text \<open>
  With the same total \<open>T\<close> on every page, and \<open>n\<close> the first page count with
  \<open>T \<le> 20 * n\<close>, the loop started at page \<open>j\<close> returns after page \<open>n - 1\<close>.
\<close>

lemma fetch_loop_consistent:
  assumes "\<forall>k. j \<le> k \<and> k < n \<longrightarrow>
             listing token (20 * k) = Resolved \<lparr>jobRequisitions = pages k, meta_totalNumber = T\<rparr>"
    and "j < n" and "T \<le> int (20 * n)" and "\<forall>k. 0 < k \<and> k < n \<longrightarrow> int (20 * k) < T"
  shows "fetch_loop listing token (20 * j) acc reqs =
           Some (Inr \<lparr>jobRequisitions = acc @ concat (map pages [j..<n]), meta_totalNumber = T\<rparr>,
                 reqs @ map (\<lambda>k. 20 * k) [j..<n])"
  using assms
proof (induction "n - j" arbitrary: j acc reqs)
  case 0
  then show ?case by simp
next
  case (Suc d)
  have page: "listing token (20 * j) = Resolved \<lparr>jobRequisitions = pages j, meta_totalNumber = T\<rparr>"
    using Suc.prems by simp
  have up: "[j..<n] = j # [Suc j..<n]" using Suc.prems by (simp add: upt_conv_Cons)
  show ?case
  proof (cases "Suc j < n")
    case True
    then have cont: "int (20 * j + 20) < T" using Suc.prems(4) [rule_format, of "Suc j"] by simp
    have IH: "fetch_loop listing token (20 * Suc j) (acc @ pages j) (reqs @ [20 * j]) =
        Some (Inr \<lparr>jobRequisitions = (acc @ pages j) @ concat (map pages [Suc j..<n]),
                   meta_totalNumber = T\<rparr>,
              (reqs @ [20 * j]) @ map (\<lambda>k. 20 * k) [Suc j..<n])"
      using Suc.hyps Suc.prems True by (intro Suc.hyps(1)) auto
    show ?thesis
      using page cont IH up by (subst fetch_loop.simps) (simp add: algebra_simps)
  next
    case False
    then have "n = Suc j" using Suc.prems by simp
    then have stop: "\<not> int (20 * j + 20) < T" using Suc.prems(3) by simp
    show ?thesis
      using page stop up \<open>n = Suc j\<close> by (subst fetch_loop.simps) simp
  qed
qed

text \<open>Pages that are full except the last add up to the total.\<close>

lemma length_pages:
  assumes "\<forall>k<n. int (length (pages k)) = min 20 (T - int (20 * k))"
    and "\<forall>k. 0 < k \<and> k < n \<longrightarrow> int (20 * k) < T" and "0 \<le> T" and "m \<le> n"
  shows "int (length (concat (map pages [0..<m]))) = min (int (20 * m)) T"
  using assms(4)
proof (induction m)
  case 0
  then show ?case using assms(3) by simp
next
  case (Suc m)
  then have m: "m < n" by simp
  have le: "int (20 * m) \<le> T"
  proof (cases "m = 0")
    case True
    then show ?thesis using assms(3) by simp
  next
    case False
    then show ?thesis using assms(2) [rule_format, of m] m by simp
  qed
  have "int (length (pages m)) = min 20 (T - int (20 * m))" using assms(1) m by simp
  with Suc le show ?case by simp
qed

lemma page_count_bounds:
  assumes "0 \<le> T" and "n = (if T = 0 then 1 else nat \<lceil>real_of_int T / 20\<rceil>)"
  shows "0 < n" and "T \<le> int (20 * n)" and "\<forall>k. 0 < k \<and> k < n \<longrightarrow> int (20 * k) < T"
proof -
  have c: "\<lceil>real_of_int T / 20\<rceil> = - ((- T) div 20)"
    using ceiling_divide_eq_div [of T 20] by simp
  show "0 < n" using assms c by (auto split: if_splits)
  show "T \<le> int (20 * n)" using assms c by (auto split: if_splits)
  show "\<forall>k. 0 < k \<and> k < n \<longrightarrow> int (20 * k) < T"
  proof (intro allI impI)
    fix k assume "0 < k \<and> k < n"
    then show "int (20 * k) < T" using assms c by (auto split: if_splits)
  qed
qed

text \<open>
  C1.  Let the listing endpoint answer every page request with the same total \<open>T \<ge> 0\<close>, and
  let \<open>n\<close> be \<open>\<lceil>T / 20\<rceil>\<close>, or 1 when \<open>T = 0\<close>.  Then the fetch returns; it has issued
  exactly \<open>n\<close> page requests, with the offsets 0, 20, 40, ... in this order; the returned
  \<open>jobRequisitions\<close> are the records of the pages, concatenated in request order; and when
  each page holds what \<^verbatim>\<open>$top=20\<close> and its \<^verbatim>\<open>$skip\<close> leave of the \<open>T\<close> records, the
  returned sequence has length \<open>T\<close>.
\<close>

theorem fetchJobRequisitions_pagination:
  assumes "0 \<le> T"
    and "n = (if T = 0 then 1 else nat \<lceil>real_of_int T / 20\<rceil>)"
    and "\<forall>k<n. listing token (20 * k) =
            Resolved \<lparr>jobRequisitions = pages k, meta_totalNumber = T\<rparr>"
  shows "\<exists>result requests.
           fetchJobRequisitions (Resolved token) listing = Some (Inr result, requests) \<and>
           length requests = n \<and>
           requests = map (\<lambda>k. 20 * k) [0..<n] \<and>
           jobRequisitions result = concat (map pages [0..<n]) \<and>
           ((\<forall>k<n. int (length (pages k)) = min 20 (T - int (20 * k))) \<longrightarrow>
              int (length (jobRequisitions result)) = T)"
proof -
  note b = page_count_bounds [OF assms(1,2)]
  have run: "fetch_loop listing token (20 * 0) [] [] =
      Some (Inr \<lparr>jobRequisitions = [] @ concat (map pages [0..<n]), meta_totalNumber = T\<rparr>,
            [] @ map (\<lambda>k. 20 * k) [0..<n])"
    using assms(3) b by (intro fetch_loop_consistent) auto
  have len: "int (length (concat (map pages [0..<n]))) = T"
    if "\<forall>k<n. int (length (pages k)) = min 20 (T - int (20 * k))"
    using length_pages [OF that b(3) assms(1) order_refl] b(2) by simp
  show ?thesis
    using run len by (simp add: fetchJobRequisitions_def getAccessToken_def)
qed

text \<open>
  The scenario of 25 records: two requests, at offsets 0 and 20, and 25 records returned.
\<close>

theorem fetchJobRequisitions_pagination_witness:
  "\<exists>result. fetchJobRequisitions (Resolved ''token'') listing_25 = Some (Inr result, [0, 20]) \<and>
             jobRequisitions result = replicate 25 sample_requisition"
proof -
  have n: "(2::nat) = (if (25::int) = 0 then 1 else nat \<lceil>real_of_int 25 / 20\<rceil>)"
    by simp
  have pages: "\<forall>k<2. listing_25 ''token'' (20 * k) =
                 Resolved \<lparr>jobRequisitions = pages_25 k, meta_totalNumber = 25\<rparr>"
    by (simp add: listing_25_def less_Suc_eq numeral_2_eq_2)
  have up: "[0..<2] = [0, Suc 0]"
    by (simp add: numeral_2_eq_2)
  have cat: "concat (map pages_25 [0..<2]) = replicate 25 sample_requisition"
    by (simp add: up pages_25_def flip: replicate_add)
  from fetchJobRequisitions_pagination [of 25 2 listing_25 "''token''" pages_25, OF _ n pages]
  obtain result requests where
    r: "fetchJobRequisitions (Resolved ''token'') listing_25 = Some (Inr result, requests)"
      "requests = map (\<lambda>k. 20 * k) [0..<2]"
      "jobRequisitions result = concat (map pages_25 [0..<2])"
    by auto
  have "requests = [0, 20]"
    using r(2) by (simp add: up)
  with r(1,3) show ?thesis
    by (simp add: cat)
qed

section \<open>Properties of the handler's error responses\<close>

text \<open>
  C2, as the code has it.  Whatever the token request is rejected with, the handler answers
  with status 500 and the body \<^verbatim>\<open>{ error: "Failed to retrieve access token" }\<close>: the
  \<^verbatim>\<open>Error\<close> that \<^verbatim>\<open>getAccessToken\<close> throws carries no response, so the status of the
  token endpoint is not passed on, and neither its message nor its body reaches the answer.
\<close>

theorem GET_token_failure:
  "GET (Rejected e) listing Date_parse currentDate =
     Some (Inr \<lparr>body = ErrorBody ''Failed to retrieve access token'', status = 500\<rparr>)"
  by (simp add: GET_def fetchJobRequisitions_def getAccessToken_def error_response_def
      NextResponse_json_def)

text \<open>The token endpoint answers 401: the handler answers 500 with the fixed message.\<close>

theorem GET_token_failure_witness:
  "GET (Rejected unauthorized) listing_25 sample_Date_parse sample_currentDate =
     Some (Inr \<lparr>body = ErrorBody ''Failed to retrieve access token'', status = 500\<rparr>)"
  using GET_token_failure [of unauthorized listing_25 sample_Date_parse sample_currentDate]
  by simp

text \<open>
  The claim as stated fails: when the token endpoint answers 401, the handler answers 500,
  not 401.
\<close>

theorem GET_token_failure_counterexample:
  "GET (Rejected unauthorized) listing_25 Map.empty 0 =
     Some (Inr \<lparr>body = ErrorBody ''Failed to retrieve access token'', status = 500\<rparr>) \<and>
   axios_response unauthorized = Some \<lparr>response_status = 401, response_data = ''invalid_client''\<rparr> \<and>
   GET (Rejected unauthorized) listing_25 Map.empty 0 \<noteq>
     Some (Inr \<lparr>body = ErrorBody ''Failed to retrieve access token'', status = 401\<rparr>)"
  by (simp add: GET_def fetchJobRequisitions_def getAccessToken_def error_response_def
      NextResponse_json_def unauthorized_def)

text \<open>
  When the page requests at offsets \<open>0, 20, ..., 20 * (j - 1)\<close> succeed, each announcing a
  total beyond the next offset, and the request at offset \<open>20 * j\<close> is rejected, the handler
  ends with what \<^verbatim>\<open>NextResponse.json\<close> makes of the message of that rejection and of
  the status of the upstream response, 500 standing in for a missing response (or a status
  of 0).  The records of the pages fetched before are in no part of it.
\<close>

lemma GET_page_rejected:
  assumes "\<forall>k<j. \<exists>batch. listing token (20 * k) = Resolved batch \<and>
                     int (20 * (k + 1)) < meta_totalNumber batch"
    and "listing token (20 * j) = Rejected e"
  shows "GET (Resolved token) listing Date_parse currentDate =
           Some (NextResponse_json (ErrorBody (axios_message e))
                   (case axios_response e of
                      None \<Rightarrow> 500
                    | Some r \<Rightarrow> if response_status r = 0 then 500 else response_status r))"
proof -
  have "fetch_loop listing token (20 * 0) [] [] =
          Some (Inl (AxiosError e), [] @ map (\<lambda>k. 20 * k) [0..<Suc j])"
    using assms by (intro fetch_loop_rejected) auto
  then show ?thesis
    by (simp add: GET_def fetchJobRequisitions_def getAccessToken_def error_response_def
        split: option.splits)
qed

text \<open>
  For a rejection without response, and for one whose status a response with a body can
  carry, that is the JSON error body with status 500 or with the upstream status.
\<close>

lemma GET_page_rejected_json:
  assumes "\<forall>k<j. \<exists>batch. listing token (20 * k) = Resolved batch \<and>
                     int (20 * (k + 1)) < meta_totalNumber batch"
    and "listing token (20 * j) = Rejected e"
  shows "axios_response e = None \<Longrightarrow>
           GET (Resolved token) listing Date_parse currentDate =
             Some (Inr \<lparr>body = ErrorBody (axios_message e), status = 500\<rparr>)"
    and "axios_response e = Some r \<Longrightarrow> 200 \<le> response_status r \<Longrightarrow>
         response_status r \<le> 599 \<Longrightarrow> response_status r \<notin> {204, 205, 304} \<Longrightarrow>
           GET (Resolved token) listing Date_parse currentDate =
             Some (Inr \<lparr>body = ErrorBody (axios_message e), status = response_status r\<rparr>)"
  using GET_page_rejected [of j listing token e Date_parse currentDate, OF assms]
  by (simp_all add: NextResponse_json_def)

text \<open>
  For a rejection whose status is a null body status, or lies outside 200 to 599, the
  handler returns no response: the exception of \<^verbatim>\<open>NextResponse.json\<close> leaves it.
\<close>

lemma GET_page_rejected_throws:
  assumes "\<forall>k<j. \<exists>batch. listing token (20 * k) = Resolved batch \<and>
                     int (20 * (k + 1)) < meta_totalNumber batch"
    and "listing token (20 * j) = Rejected e"
    and "axios_response e = Some r"
    and "0 < response_status r"
    and "response_status r < 200 \<or> 599 < response_status r \<or> response_status r \<in> {204, 205, 304}"
  shows "\<exists>x. GET (Resolved token) listing Date_parse currentDate = Some (Inl x)"
  using GET_page_rejected [of j listing token e Date_parse currentDate, OF assms(1,2)] assms(3-5)
  by (auto simp: NextResponse_json_def)

text \<open>
  C6 holds of the code for the statuses above that a response can carry, and fails for the
  others.  After a first page of 20 records out of 45, a second page answered with 503
  makes the handler return the JSON error body with status 503, as the claim says; a
  second page answered with 304 makes \<^verbatim>\<open>NextResponse.json\<close> throw inside the
  \<^verbatim>\<open>catch\<close> block, and the handler returns neither a JSON error body nor the upstream
  status.
\<close>

theorem GET_page_failure_not_modified:
  "GET (Resolved ''token'') listing_failing Map.empty 0 =
     Some (Inr \<lparr>body = ErrorBody ''Request failed with status code 503'', status = 503\<rparr>) \<and>
   listing_not_modified ''token'' 20 = Rejected not_modified \<and>
   axios_response not_modified = Some \<lparr>response_status = 304, response_data = []\<rparr> \<and>
   GET (Resolved ''token'') listing_not_modified Map.empty 0 =
     Some (Inl (TypeError ''Response constructor: Invalid response status code 304''))"
proof -
  have first: "\<forall>k<1. \<exists>batch. listing_failing ''token'' (20 * k) = Resolved batch \<and>
                       int (20 * (k + 1)) < meta_totalNumber batch"
    by (simp add: listing_failing_def)
  have second: "listing_failing ''token'' (20 * 1) = Rejected unavailable"
    by (simp add: listing_failing_def)
  have first': "\<forall>k<1. \<exists>batch. listing_not_modified ''token'' (20 * k) = Resolved batch \<and>
                       int (20 * (k + 1)) < meta_totalNumber batch"
    by (simp add: listing_not_modified_def)
  have second': "listing_not_modified ''token'' (20 * 1) = Rejected not_modified"
    by (simp add: listing_not_modified_def)
  have "GET (Resolved ''token'') listing_failing Map.empty 0 =
     Some (Inr \<lparr>body = ErrorBody ''Request failed with status code 503'', status = 503\<rparr>)"
    using GET_page_rejected [of 1 listing_failing "''token''" unavailable Map.empty 0, OF first second]
    by (simp add: unavailable_def NextResponse_json_def)
  moreover have "GET (Resolved ''token'') listing_not_modified Map.empty 0 =
     Some (Inl (TypeError ''Response constructor: Invalid response status code 304''))"
    using GET_page_rejected
      [of 1 listing_not_modified "''token''" not_modified Map.empty 0, OF first' second']
    by (simp add: not_modified_def NextResponse_json_def)
  ultimately show ?thesis
    using second' by (simp add: not_modified_def)
qed

section \<open>Properties of the transform\<close>

subsection \<open>The loop leaves the argument alone\<close>

text \<open>
  The callback changes nothing of the state but the job map, so every index that
  \<open>forEach\<close> visits still holds the requisition it held at the start: the loop from index
  \<open>k\<close> is the recursion over the requisitions from \<open>k\<close> on, and the argument comes back
  as it was, with the map or with the exception.
\<close>

lemma callback_openings:
  "callback P c jr s = Inr s' \<Longrightarrow> openings s' = openings s"
  by (auto simp: callback_def split: sum.splits option.splits prod.splits)

lemma forEach_group_from:
  assumes "openings s = arg" and "n = length (jobRequisitions arg)" and "k \<le> n"
  shows "(case forEach (callback P c) [k..<n] s of
            Inl (e, s') \<Rightarrow> (Inl e, openings s')
          | Inr s' \<Rightarrow> (Inr (jobMap s'), openings s')) =
         (group_from P c (jobMap s) (drop k (jobRequisitions arg)), arg)"
  using assms
proof (induction "n - k" arbitrary: k s)
  case 0
  then show ?case by simp
next
  case (Suc m)
  then have lt: "k < n" by simp
  have up: "[k..<n] = k # [Suc k..<n]" using lt by (simp add: upt_conv_Cons)
  have dr: "drop k (jobRequisitions arg) = jobRequisitions arg ! k # drop (Suc k) (jobRequisitions arg)"
    using lt Suc.prems by (simp add: Cons_nth_drop_Suc)
  have lt': "k < length (jobRequisitions (openings s))" "jobRequisitions (openings s) ! k = jobRequisitions arg ! k"
    using lt Suc.prems by simp_all
  let ?jr = "jobRequisitions arg ! k"
  show ?case
  proof (cases "callback P c ?jr s")
    case (Inl e)
    then have "group_from P c (jobMap s) (?jr # drop (Suc k) (jobRequisitions arg)) = Inl e"
      by (auto simp: callback_def split: sum.splits option.splits prod.splits)
    moreover have "forEach (callback P c) [k..<n] s = Inl (e, s)"
      unfolding up using Inl lt' by simp
    ultimately show ?thesis
      using Suc.prems(1) by (simp add: dr)
  next
    case (Inr s')
    then have o: "openings s' = arg" using callback_openings Suc.prems by blast
    have IH: "(case forEach (callback P c) [Suc k..<n] s' of
            Inl (e, s'') \<Rightarrow> (Inl e, openings s'')
          | Inr s'' \<Rightarrow> (Inr (jobMap s''), openings s'')) =
         (group_from P c (jobMap s') (drop (Suc k) (jobRequisitions arg)), arg)"
      using Suc.hyps Suc.prems lt o by (intro Suc.hyps(1)) auto
    have "group_from P c (jobMap s) (?jr # drop (Suc k) (jobRequisitions arg)) =
          group_from P c (jobMap s') (drop (Suc k) (jobRequisitions arg))"
      using Inr by (auto simp: callback_def split: sum.splits option.splits prod.splits)
    moreover have "forEach (callback P c) [k..<n] s = forEach (callback P c) [Suc k..<n] s'"
      unfolding up using Inr lt' by simp
    ultimately show ?thesis
      using IH by (simp add: dr)
  qed
qed

lemma restructureOpenings_group_from:
  "restructureOpenings P c arg = (group_from P c [] (jobRequisitions arg), arg)"
  using forEach_group_from [of "\<lparr>openings = arg, jobMap = []\<rparr>" arg "length (jobRequisitions arg)" 0 P c]
  by (simp add: restructureOpenings_def)

subsection \<open>The job map is the grouping of what was read\<close>

text \<open>
  The invariant of the loop: after the pairs \<open>ps\<close> have been written, the job map is
  \<open>grouped ps\<close>, its entries in creation order.  A write under an inherited name throws
  at the first attempt, so no such name is ever among the keys.
\<close>

lemma set_first_encounter: "set (first_encounter xs) = set xs"
  by (induction xs rule: first_encounter.induct) auto

lemma distinct_first_encounter: "distinct (first_encounter xs)"
  by (induction xs rule: first_encounter.induct) (auto simp: set_first_encounter)

lemma first_encounter_snoc:
  "first_encounter (xs @ [x]) = (if x \<in> set xs then first_encounter xs else first_encounter xs @ [x])"
  by (induction xs rule: first_encounter.induct) auto

lemma map_of_keyed:
  "map_of (map (\<lambda>d. (d, f d)) ks) k = (if k \<in> set ks then Some (f k) else None)"
  by (induction ks) auto

lemma map_of_grouped:
  "map_of (grouped ps) d = (if d \<in> fst ` set ps then Some (bucket ps d) else None)"
  by (simp add: grouped_def map_of_keyed set_first_encounter)

lemma update_absent: "k \<notin> fst ` set xs \<Longrightarrow> AList.update k v xs = xs @ [(k, v)]"
  by (induction xs) auto

lemma update_last: "k \<notin> fst ` set xs \<Longrightarrow> AList.update k v (xs @ [(k, w)]) = xs @ [(k, v)]"
  by (induction xs) auto

lemma update_keyed:
  "distinct ks \<Longrightarrow> k \<in> set ks \<Longrightarrow>
     AList.update k v (map (\<lambda>d. (d, f d)) ks) = map (\<lambda>d. (d, if d = k then v else f d)) ks"
  by (induction ks) auto

lemma bucket_snoc:
  "bucket (ps @ [(d, item)]) d' = (if d' = d then bucket ps d @ [item] else bucket ps d')"
  by (simp add: bucket_def)

lemma bucket_absent: "d \<notin> fst ` set ps \<Longrightarrow> bucket ps d = []"
  by (auto simp: bucket_def filter_empty_conv)

lemma fst_grouped: "fst ` set (grouped ps) = fst ` set ps"
  by (force simp: grouped_def set_first_encounter)

lemma callback_write_grouped:
  assumes "d \<notin> set Object_prototype_keys"
  shows "callback_write (grouped ps) d item = Inr (grouped (ps @ [(d, item)]))"
proof (cases "d \<in> fst ` set ps")
  case True
  then have get: "jobMap_get (grouped ps) d = Own (bucket ps d)"
    by (simp add: jobMap_get_def map_of_grouped)
  have keys: "first_encounter (map fst (ps @ [(d, item)])) = first_encounter (map fst ps)"
    using True by (simp add: first_encounter_snoc)
  have "AList.update d (bucket ps d @ [item]) (grouped ps) = grouped (ps @ [(d, item)])"
    unfolding grouped_def keys using True
    by (subst update_keyed) (auto simp: distinct_first_encounter set_first_encounter bucket_snoc)
  with get show ?thesis
    by (simp add: callback_write_def)
next
  case False
  then have get: "jobMap_get (grouped ps) d = Undefined"
    using assms by (simp add: jobMap_get_def map_of_grouped)
  have absent: "d \<notin> fst ` set (grouped ps)"
    using False by (simp add: fst_grouped)
  have jm1: "AList.update d [] (grouped ps) = grouped ps @ [(d, [])]"
    using absent by (rule update_absent)
  have get1: "jobMap_get (grouped ps @ [(d, [])]) d = Own []"
    using False by (simp add: jobMap_get_def map_of_grouped map_add_def)
  have "first_encounter (map fst (ps @ [(d, item)])) = first_encounter (map fst ps) @ [d]"
    using False by (simp add: first_encounter_snoc)
  then have "grouped (ps @ [(d, item)]) = grouped ps @ [(d, [item])]"
    using False by (auto simp: grouped_def bucket_snoc bucket_absent set_first_encounter)
  then show ?thesis
    using absent by (simp add: callback_write_def get jm1 get1 update_last)
qed

lemma callback_write_inherited:
  assumes "d \<in> set Object_prototype_keys" and "d \<notin> fst ` set jm"
  shows "callback_write jm d item = Inl (TypeError ''jobMap[department].push is not a function'')"
proof -
  have "map_of jm d = None" using assms(2) by (simp add: map_of_eq_None_iff)
  then have "jobMap_get jm d = Inherited" using assms(1) by (simp add: jobMap_get_def)
  then show ?thesis by (simp add: callback_write_def)
qed

lemma produced_Cons:
  "produced P c (jr # rs) =
     (case callback_read P c jr of Inr (Some p) \<Rightarrow> [p] | _ \<Rightarrow> []) @ produced P c rs"
  by (simp add: produced_def)

lemma group_from_grouped:
  assumes "\<forall>p\<in>set ps. fst p \<notin> set Object_prototype_keys"
  shows "group_from P c (grouped ps) rs = Inr jm \<longleftrightarrow>
           (\<forall>jr\<in>set rs. \<exists>x. callback_read P c jr = Inr x) \<and>
           (\<forall>p\<in>set (produced P c rs). fst p \<notin> set Object_prototype_keys) \<and>
           jm = grouped (ps @ produced P c rs)"
  using assms
proof (induction rs arbitrary: ps)
  case Nil
  then show ?case by (auto simp: produced_def)
next
  case (Cons jr rs)
  show ?case
  proof (cases "callback_read P c jr")
    case (Inl e)
    then show ?thesis by auto
  next
    case (Inr x)
    show ?thesis
    proof (cases x)
      case None
      with Inr Cons show ?thesis by (simp add: produced_Cons)
    next
      case (Some p)
      obtain d item where p: "p = (d, item)" by (cases p)
      show ?thesis
      proof (cases "d \<in> set Object_prototype_keys")
        case True
        then have "d \<notin> fst ` set (grouped ps)"
          using Cons.prems by (auto simp: fst_grouped)
        with True have "callback_write (grouped ps) d item =
            Inl (TypeError ''jobMap[department].push is not a function'')"
          by (rule callback_write_inherited)
        with True Inr Some p show ?thesis by (auto simp: produced_Cons)
      next
        case False
        then have w: "callback_write (grouped ps) d item = Inr (grouped (ps @ [(d, item)]))"
          by (rule callback_write_grouped)
        have "\<forall>q\<in>set (ps @ [(d, item)]). fst q \<notin> set Object_prototype_keys"
          using Cons.prems False by auto
        from Cons.IH [OF this] w Inr Some p False show ?thesis
          by (simp add: produced_Cons)
      qed
    qed
  qed
qed

lemma callback_read_TypeError: "callback_read P c jr = Inl e \<Longrightarrow> \<exists>m. e = TypeError m"
  by (auto simp: callback_read_def split: list.splits if_splits)

lemma callback_write_TypeError: "callback_write jm d item = Inl e \<Longrightarrow> \<exists>m. e = TypeError m"
  by (auto simp: callback_write_def Let_def split: property.splits)

lemma group_from_TypeError: "group_from P c jm rs = Inl e \<Longrightarrow> \<exists>m. e = TypeError m"
proof (induction rs arbitrary: jm)
  case Nil
  then show ?case by simp
next
  case (Cons jr rs)
  then show ?case
    by (auto split: sum.splits option.splits prod.splits
        dest: callback_read_TypeError callback_write_TypeError)
qed

text \<open>
  The transform returns exactly when every requisition can be read and no department read
  is an inherited name; the map returned is then the grouping of what was read.  Whatever
  it throws is a \<^verbatim>\<open>TypeError\<close>.
\<close>

lemma grouped_Nil: "grouped [] = []"
  by (simp add: grouped_def)

lemma restructureOpenings_success:
  "fst (restructureOpenings P c arg) = Inr jm \<longleftrightarrow>
     (\<forall>jr\<in>set (jobRequisitions arg). \<exists>x. callback_read P c jr = Inr x) \<and>
     (\<forall>p\<in>set (produced P c (jobRequisitions arg)). fst p \<notin> set Object_prototype_keys) \<and>
     jm = grouped (produced P c (jobRequisitions arg))"
  using group_from_grouped [of "[]" P c "jobRequisitions arg" jm]
  by (simp add: restructureOpenings_group_from grouped_Nil)

subsection \<open>Enumeration order of the keys\<close>

text \<open>The enumeration of a grouping, key by key.\<close>

lemma insort_key_map:
  "insort_key g (f x) (map f ys) = map f (insort_key (\<lambda>y. g (f y)) x ys)"
  by (induction ys) auto

lemma sort_key_map: "sort_key g (map f xs) = map f (sort_key (\<lambda>y. g (f y)) xs)"
  by (induction xs) (auto simp: insort_key_map)

lemma Object_entries_grouped:
  "Object_entries (grouped ps) =
     map (\<lambda>d. (d, bucket ps d))
       (sort_key index_value (filter is_array_index (first_encounter (map fst ps)))
        @ filter (\<lambda>d. \<not> is_array_index d) (first_encounter (map fst ps)))"
  by (simp add: Object_entries_def grouped_def filter_map comp_def sort_key_map)

lemma set_Object_entries: "set (Object_entries jm) = set jm"
  by (auto simp: Object_entries_def)


subsection \<open>What a requisition contributes\<close>

text \<open>
  A requisition that the callback skips can be taken out of the input; one that is read as
  an opening has a department other than \<open>All\<close> and a first posting instruction that has
  not expired, and its opening is in the list of that department.
\<close>

lemma group_from_skip:
  "callback_read P c jr = Inr None \<Longrightarrow>
     group_from P c jm (pre @ jr # post) = group_from P c jm (pre @ post)"
  by (induction pre arbitrary: jm) (auto split: sum.splits option.splits prod.splits)

lemma callback_read_Some:
  assumes "callback_read P c jr = Inr (Some (d, item))"
  shows "\<exists>ou ous p ps loc locs.
           organizationalUnits jr = ou # ous \<and> d = department_of ou \<and> d \<noteq> ''All'' \<and>
           postingInstructions jr = p # ps \<and> \<not> expired P c (posting_expireDate p) \<and>
           requisitionLocations jr = loc # locs \<and>
           openingLink item = openingLink_of (links jr) \<and>
           expireDate item = posting_expireDate p"
  using assms by (auto simp: callback_read_def split: list.splits if_splits)

lemma produced_Nil: "produced P c [] = []"
  by (simp add: produced_def)

lemma produced_iff:
  "p \<in> set (produced P c rs) \<longleftrightarrow> (\<exists>jr\<in>set rs. callback_read P c jr = Inr (Some p))"
proof (induction rs)
  case Nil
  then show ?case by (simp add: produced_Nil)
next
  case (Cons jr rs)
  show ?case
  proof (cases "callback_read P c jr")
    case (Inl e)
    with Cons show ?thesis by (simp add: produced_Cons)
  next
    case (Inr x)
    with Cons show ?thesis by (cases x) (auto simp: produced_Cons)
  qed
qed

lemma bucket_produced:
  "list_all2 (\<lambda>jr item. callback_read P c jr = Inr (Some (d, item)))
     (filter (\<lambda>jr. case callback_read P c jr of Inr (Some p) \<Rightarrow> fst p = d | _ \<Rightarrow> False) rs)
     (bucket (produced P c rs) d)"
  by (induction rs) (auto simp: produced_Nil produced_Cons bucket_def split: sum.splits option.splits)

lemma set_grouped:
  "(d, items) \<in> set (grouped ps) \<longleftrightarrow> d \<in> fst ` set ps \<and> items = bucket ps d"
  by (auto simp: grouped_def set_first_encounter)

lemma set_bucket: "item \<in> set (bucket ps d) \<longleftrightarrow> (d, item) \<in> set ps"
  by (force simp: bucket_def)

lemma produced_in_bucket:
  assumes "fst (restructureOpenings P c arg) = Inr jm"
    and "jr \<in> set (jobRequisitions arg)"
    and "callback_read P c jr = Inr (Some (d, item))"
  shows "\<exists>items. map_of jm d = Some items \<and> item \<in> set items \<and> (d, items) \<in> set jm"
proof -
  let ?ps = "produced P c (jobRequisitions arg)"
  from assms(1) have jm: "jm = grouped ?ps"
    by (simp add: restructureOpenings_success)
  from assms(2,3) have "(d, item) \<in> set ?ps"
    by (auto simp: produced_iff)
  then have "map_of jm d = Some (bucket ?ps d)" "item \<in> set (bucket ?ps d)"
    "(d, bucket ?ps d) \<in> set jm"
    unfolding jm by (force simp: map_of_grouped set_bucket set_grouped)+
  then show ?thesis by blast
qed

lemma find_first:
  "P l \<Longrightarrow> \<forall>x\<in>set pre. \<not> P x \<Longrightarrow> List.find P (pre @ l # post) = Some l"
  by (induction pre) auto

subsection \<open>Filtering and expiration\<close>

text \<open>
  C4.  Suppose the transform returns the map \<open>jm\<close>.  A requisition of the input whose
  department, the short name of its first organizational unit, is exactly \<open>All\<close> is
  skipped by the callback, and the input without it gives the same map; no key of the map
  is \<open>All\<close>.  The openings of each key \<open>d\<close> stand, one for one and in order, for the
  requisitions of the input that the callback reads as an opening of department \<open>d\<close>;
  and a requisition is read as an opening only if its department is not \<open>All\<close> and the
  expire date of its first posting instruction has not passed.
\<close>

theorem restructureOpenings_All_excluded:
  assumes "fst (restructureOpenings Date_parse currentDate arg) = Inr jm"
  shows "(\<forall>pre jr post ou ous.
            jobRequisitions arg = pre @ jr # post \<and> organizationalUnits jr = ou # ous \<and>
            department_of ou = ''All'' \<longrightarrow>
              callback_read Date_parse currentDate jr = Inr None \<and>
              fst (restructureOpenings Date_parse currentDate
                     (arg\<lparr>jobRequisitions := pre @ post\<rparr>)) = Inr jm) \<and>
         ''All'' \<notin> fst ` set jm \<and>
         (\<forall>(d, items)\<in>set jm.
            list_all2 (\<lambda>jr item. callback_read Date_parse currentDate jr = Inr (Some (d, item)))
              (filter (\<lambda>jr. case callback_read Date_parse currentDate jr of
                               Inr (Some p) \<Rightarrow> fst p = d
                             | _ \<Rightarrow> False) (jobRequisitions arg))
              items) \<and>
         (\<forall>jr d item.
            callback_read Date_parse currentDate jr = Inr (Some (d, item)) \<longrightarrow>
              (\<exists>ou ous p ps.
                 organizationalUnits jr = ou # ous \<and> department_of ou = d \<and> d \<noteq> ''All'' \<and>
                 postingInstructions jr = p # ps \<and>
                 \<not> expired Date_parse currentDate (posting_expireDate p)))"
proof (intro conjI allI impI)
  fix pre jr post ou ous
  assume a: "jobRequisitions arg = pre @ jr # post \<and> organizationalUnits jr = ou # ous \<and>
            department_of ou = ''All''"
  then show skip: "callback_read Date_parse currentDate jr = Inr None"
    by (simp add: callback_read_def)
  from assms a show "fst (restructureOpenings Date_parse currentDate
                     (arg\<lparr>jobRequisitions := pre @ post\<rparr>)) = Inr jm"
    by (simp add: restructureOpenings_group_from group_from_skip [OF skip])
next
  from assms have jm: "jm = grouped (produced Date_parse currentDate (jobRequisitions arg))"
    by (simp add: restructureOpenings_success)
  show "''All'' \<notin> fst ` set jm"
  proof
    assume "''All'' \<in> fst ` set jm"
    then obtain item where
      "(''All'', item) \<in> set (produced Date_parse currentDate (jobRequisitions arg))"
      unfolding jm fst_grouped by force
    then obtain jr where "callback_read Date_parse currentDate jr = Inr (Some (''All'', item))"
      by (auto simp: produced_iff)
    from callback_read_Some [OF this] show False by blast
  qed
  show "\<forall>(d, items)\<in>set jm.
            list_all2 (\<lambda>jr item. callback_read Date_parse currentDate jr = Inr (Some (d, item)))
              (filter (\<lambda>jr. case callback_read Date_parse currentDate jr of
                               Inr (Some p) \<Rightarrow> fst p = d
                             | _ \<Rightarrow> False) (jobRequisitions arg))
              items"
    unfolding jm by (auto simp: set_grouped bucket_produced)
next
  fix jr d item
  assume "callback_read Date_parse currentDate jr = Inr (Some (d, item))"
  from callback_read_Some [OF this]
  show "\<exists>ou ous p ps.
                 organizationalUnits jr = ou # ous \<and> department_of ou = d \<and> d \<noteq> ''All'' \<and>
                 postingInstructions jr = p # ps \<and>
                 \<not> expired Date_parse currentDate (posting_expireDate p)"
    by blast
qed

text \<open>
  An engineering requisition followed by one of department \<open>All\<close>: the map has the
  engineering opening alone, as it has for the first requisition by itself.
\<close>

theorem restructureOpenings_All_excluded_witness:
  "callback_read Map.empty 0 all_requisition = Inr None \<and>
   fst (restructureOpenings Map.empty 0
          \<lparr>jobRequisitions = [sample_requisition], meta_totalNumber = 2\<rparr>) =
     Inr [(''Engineering'', [sample_opening])] \<and>
   ''All'' \<notin> fst ` set [(''Engineering'', [sample_opening])] \<and>
   list_all2 (\<lambda>jr item. callback_read Map.empty 0 jr = Inr (Some (''Engineering'', item)))
     [sample_requisition] [sample_opening]"
proof -
  let ?arg = "\<lparr>jobRequisitions = [sample_requisition, all_requisition], meta_totalNumber = 2\<rparr>"
  have run: "fst (restructureOpenings Map.empty 0 ?arg) = Inr [(''Engineering'', [sample_opening])]"
    by code_simp
  have at: "jobRequisitions ?arg = [sample_requisition] @ all_requisition # [] \<and>
            organizationalUnits all_requisition = \<lparr>nameCode_shortName = Some ''All''\<rparr> # [] \<and>
            department_of \<lparr>nameCode_shortName = Some ''All''\<rparr> = ''All''"
    by (simp add: all_requisition_def department_of_def)
  have reads: "filter (\<lambda>jr. case callback_read Map.empty 0 jr of
                               Inr (Some p) \<Rightarrow> fst p = ''Engineering''
                             | _ \<Rightarrow> False) (jobRequisitions ?arg) = [sample_requisition]"
    by code_simp
  note facts = restructureOpenings_All_excluded [OF run]
  from facts at have "callback_read Map.empty 0 all_requisition = Inr None \<and>
      fst (restructureOpenings Map.empty 0
             (?arg\<lparr>jobRequisitions := [sample_requisition] @ []\<rparr>)) =
        Inr [(''Engineering'', [sample_opening])]"
    by blast
  moreover from facts have "''All'' \<notin> fst ` set [(''Engineering'', [sample_opening])]"
    by blast
  moreover have "list_all2
      (\<lambda>jr item. callback_read Map.empty 0 jr = Inr (Some (''Engineering'', item)))
      [sample_requisition] [sample_opening]"
  proof -
    from facts have "list_all2
      (\<lambda>jr item. callback_read Map.empty 0 jr = Inr (Some (''Engineering'', item)))
      (filter (\<lambda>jr. case callback_read Map.empty 0 jr of
                               Inr (Some p) \<Rightarrow> fst p = ''Engineering''
                             | _ \<Rightarrow> False) (jobRequisitions ?arg))
      [sample_opening]"
      by fastforce
    then show ?thesis
      unfolding reads .
  qed
  ultimately show ?thesis
    by simp
qed

text \<open>
  C3.  Suppose the transform returns the map \<open>jm\<close>, and let \<open>jr\<close> be a requisition of the
  input with a first posting instruction \<open>p\<close>.  If \<open>p\<close> has an expire date, a string that
  \<^verbatim>\<open>Date\<close> reads as a time before the current date, then the callback skips \<open>jr\<close> and
  the input without \<open>jr\<close> gives the same map: no opening stands for it.  If \<open>p\<close> has no
  expire date and the department is not \<open>All\<close>, then \<open>jr\<close> is read as an opening, and the
  opening is in the list of its department.  No opening of the map has an expire date that
  has passed.
\<close>

theorem restructureOpenings_expiration:
  assumes "fst (restructureOpenings Date_parse currentDate arg) = Inr jm"
    and "jobRequisitions arg = pre @ jr # post"
    and "postingInstructions jr = p # ps"
  shows "(\<forall>d t. posting_expireDate p = Some d \<and> d \<noteq> [] \<and> Date_parse d = Some t \<and> t < currentDate \<longrightarrow>
            callback_read Date_parse currentDate jr = Inr None \<and>
            fst (restructureOpenings Date_parse currentDate
                   (arg\<lparr>jobRequisitions := pre @ post\<rparr>)) = Inr jm) \<and>
         (\<forall>ou ous. posting_expireDate p = None \<and> organizationalUnits jr = ou # ous \<and>
            department_of ou \<noteq> ''All'' \<longrightarrow>
            (\<exists>item items.
               callback_read Date_parse currentDate jr = Inr (Some (department_of ou, item)) \<and>
               map_of jm (department_of ou) = Some items \<and> item \<in> set items)) \<and>
         (\<forall>(d, items)\<in>set jm. \<forall>item\<in>set items.
            \<not> expired Date_parse currentDate (expireDate item))"
proof (intro conjI allI impI)
  from assms(1,2) obtain x where x: "callback_read Date_parse currentDate jr = Inr x"
    by (auto simp: restructureOpenings_success)
  {
    fix d t
    assume e: "posting_expireDate p = Some d \<and> d \<noteq> [] \<and> Date_parse d = Some t \<and> t < currentDate"
    then have "expired Date_parse currentDate (posting_expireDate p)"
      by (simp add: expired_def)
    with x assms(3) show skip: "callback_read Date_parse currentDate jr = Inr None"
      by (auto simp: callback_read_def split: list.splits if_splits)
    from assms(1,2) show "fst (restructureOpenings Date_parse currentDate
                   (arg\<lparr>jobRequisitions := pre @ post\<rparr>)) = Inr jm"
      by (simp add: restructureOpenings_group_from group_from_skip [OF skip])
  }
  {
    fix ou ous
    assume n: "posting_expireDate p = None \<and> organizationalUnits jr = ou # ous \<and>
            department_of ou \<noteq> ''All''"
    then have "\<not> expired Date_parse currentDate (posting_expireDate p)"
      by (simp add: expired_def)
    with x n assms(3) obtain item where
      item: "callback_read Date_parse currentDate jr = Inr (Some (department_of ou, item))"
      by (auto simp: callback_read_def split: list.splits if_splits)
    from assms(2) have "jr \<in> set (jobRequisitions arg)" by simp
    from produced_in_bucket [OF assms(1) this item] item
    show "\<exists>item items.
               callback_read Date_parse currentDate jr = Inr (Some (department_of ou, item)) \<and>
               map_of jm (department_of ou) = Some items \<and> item \<in> set items"
      by blast
  }
  from assms(1) have jm: "jm = grouped (produced Date_parse currentDate (jobRequisitions arg))"
    by (simp add: restructureOpenings_success)
  show "\<forall>(d, items)\<in>set jm. \<forall>item\<in>set items.
            \<not> expired Date_parse currentDate (expireDate item)"
  proof (intro ballI, clarify)
    fix d items item
    assume "(d, items) \<in> set jm" "item \<in> set items"
      "expired Date_parse currentDate (expireDate item)"
    then have "(d, item) \<in> set (produced Date_parse currentDate (jobRequisitions arg))"
      unfolding jm by (simp add: set_grouped set_bucket)
    then obtain r where "callback_read Date_parse currentDate r = Inr (Some (d, item))"
      by (auto simp: produced_iff)
    from callback_read_Some [OF this] \<open>expired Date_parse currentDate (expireDate item)\<close>
    show False by auto
  qed
qed

text \<open>
  A requisition without expire date followed by one that expired in 2020, seen in 2023:
  the second is skipped, the first is in the engineering list.
\<close>

theorem restructureOpenings_expiration_witness:
  "callback_read sample_Date_parse sample_currentDate expired_requisition = Inr None \<and>
   fst (restructureOpenings sample_Date_parse sample_currentDate
          \<lparr>jobRequisitions = [sample_requisition], meta_totalNumber = 2\<rparr>) =
     Inr [(''Engineering'', [sample_opening])] \<and>
   (\<exists>item items.
      callback_read sample_Date_parse sample_currentDate sample_requisition =
        Inr (Some (''Engineering'', item)) \<and>
      map_of [(''Engineering'', [sample_opening])] ''Engineering'' = Some items \<and>
      item \<in> set items) \<and>
   \<not> expired sample_Date_parse sample_currentDate (expireDate sample_opening)"
proof -
  let ?arg = "\<lparr>jobRequisitions = [sample_requisition, expired_requisition], meta_totalNumber = 2\<rparr>"
  let ?late = "\<lparr>nameCode_codeValue = ''Tester'', posting_expireDate = Some ''2020-01-01''\<rparr>"
  let ?open = "\<lparr>nameCode_codeValue = ''Developer'', posting_expireDate = None\<rparr>"
  let ?unit = "\<lparr>nameCode_shortName = Some ''Engineering''\<rparr>"
  have run: "fst (restructureOpenings sample_Date_parse sample_currentDate ?arg) =
               Inr [(''Engineering'', [sample_opening])]"
    by code_simp
  have second: "jobRequisitions ?arg = [sample_requisition] @ expired_requisition # []"
    "postingInstructions expired_requisition = ?late # []"
    by (simp_all add: expired_requisition_def)
  have passed: "posting_expireDate ?late = Some ''2020-01-01'' \<and> ''2020-01-01'' \<noteq> [] \<and>
      sample_Date_parse ''2020-01-01'' = Some 1577836800000 \<and> 1577836800000 < sample_currentDate"
    by (simp add: sample_Date_parse_def sample_currentDate_def)
  have first: "jobRequisitions ?arg = [] @ sample_requisition # [expired_requisition]"
    "postingInstructions sample_requisition = ?open # []"
    by (simp_all add: sample_requisition_def)
  have undated: "posting_expireDate ?open = None \<and> organizationalUnits sample_requisition = ?unit # [] \<and>
      department_of ?unit \<noteq> ''All''"
    by (simp add: sample_requisition_def department_of_def)
  have dep: "department_of ?unit = ''Engineering''"
    by (simp add: department_of_def)
  from restructureOpenings_expiration [OF run second] passed
  have "callback_read sample_Date_parse sample_currentDate expired_requisition = Inr None \<and>
        fst (restructureOpenings sample_Date_parse sample_currentDate
               (?arg\<lparr>jobRequisitions := [sample_requisition] @ []\<rparr>)) =
          Inr [(''Engineering'', [sample_opening])]"
    by blast
  moreover from restructureOpenings_expiration [OF run first] undated
  have "\<exists>item items.
      callback_read sample_Date_parse sample_currentDate sample_requisition =
        Inr (Some (department_of ?unit, item)) \<and>
      map_of [(''Engineering'', [sample_opening])] (department_of ?unit) = Some items \<and>
      item \<in> set items"
    by blast
  moreover from restructureOpenings_expiration [OF run first]
  have "\<not> expired sample_Date_parse sample_currentDate (expireDate sample_opening)"
    by fastforce
  ultimately show ?thesis
    unfolding dep by simp
qed

subsection \<open>Unguarded indexing\<close>

text \<open>
  C5.  The callback reads the first element of \<^verbatim>\<open>organizationalUnits\<close>,
  \<^verbatim>\<open>postingInstructions\<close> and \<^verbatim>\<open>requisitionLocations\<close> unguarded.  If the input holds a
  requisition with no organizational unit, or one whose department is not \<open>All\<close> and that
  has no posting instruction or no location, then the transform throws a \<^verbatim>\<open>TypeError\<close>:
  the requisition is neither skipped nor given defaults, and a handler that fetched this
  input answers with the error message and status 500.
\<close>

theorem restructureOpenings_unguarded_index:
  assumes "jr \<in> set (jobRequisitions arg)"
    and "organizationalUnits jr = [] \<or>
         (\<exists>ou ous. organizationalUnits jr = ou # ous \<and> department_of ou \<noteq> ''All'' \<and>
            (postingInstructions jr = [] \<or> requisitionLocations jr = []))"
  shows "\<exists>m. fst (restructureOpenings Date_parse currentDate arg) = Inl (TypeError m) \<and>
             (\<forall>token_post listing requests.
                fetchJobRequisitions token_post listing = Some (Inr arg, requests) \<longrightarrow>
                GET token_post listing Date_parse currentDate =
                  Some (Inr \<lparr>body = ErrorBody m, status = 500\<rparr>))"
proof -
  from assms(2) have "\<exists>e. callback_read Date_parse currentDate jr = Inl e"
    by (auto simp: callback_read_def split: list.splits)
  then obtain e where "callback_read Date_parse currentDate jr = Inl e" ..
  with assms(1) have "\<not> (\<forall>r\<in>set (jobRequisitions arg).
                         \<exists>x. callback_read Date_parse currentDate r = Inr x)"
    by force
  then have "\<forall>jm. fst (restructureOpenings Date_parse currentDate arg) \<noteq> Inr jm"
    by (simp add: restructureOpenings_success)
  then obtain e' where e': "group_from Date_parse currentDate [] (jobRequisitions arg) = Inl e'"
    by (cases "group_from Date_parse currentDate [] (jobRequisitions arg)")
       (auto simp: restructureOpenings_group_from)
  from group_from_TypeError [OF this] obtain m where "e' = TypeError m" ..
  with e' have "fst (restructureOpenings Date_parse currentDate arg) = Inl (TypeError m)"
    by (simp add: restructureOpenings_group_from)
  then show ?thesis
    by (auto simp: GET_def error_response_def NextResponse_json_def)
qed

text \<open>A well-formed requisition followed by one without organizational units.\<close>

theorem restructureOpenings_unguarded_index_witness:
  "fst (restructureOpenings Map.empty 0
          \<lparr>jobRequisitions = [sample_requisition, malformed_requisition], meta_totalNumber = 2\<rparr>) =
     Inl (TypeError ''Cannot read properties of undefined (reading 'nameCode')'') \<and>
   GET (Resolved ''token'') (listing_of [sample_requisition, malformed_requisition]) Map.empty 0 =
     Some (Inr \<lparr>body = ErrorBody ''Cannot read properties of undefined (reading 'nameCode')'',
                status = 500\<rparr>)"
proof -
  let ?arg = "\<lparr>jobRequisitions = [sample_requisition, malformed_requisition], meta_totalNumber = 2\<rparr>"
  have member: "malformed_requisition \<in> set (jobRequisitions ?arg)"
    by simp
  have empty: "organizationalUnits malformed_requisition = [] \<or>
         (\<exists>ou ous. organizationalUnits malformed_requisition = ou # ous \<and>
            department_of ou \<noteq> ''All'' \<and>
            (postingInstructions malformed_requisition = [] \<or>
             requisitionLocations malformed_requisition = []))"
    by (simp add: malformed_requisition_def)
  have fetched: "fetchJobRequisitions (Resolved ''token'')
                   (listing_of [sample_requisition, malformed_requisition]) = Some (Inr ?arg, [0])"
    by (simp add: fetchJobRequisitions_def getAccessToken_def fetch_loop.simps listing_of_def)
  have thrown: "fst (restructureOpenings Map.empty 0 ?arg) =
                  Inl (TypeError ''Cannot read properties of undefined (reading 'nameCode')'')"
    by code_simp
  from restructureOpenings_unguarded_index [OF member empty, of Map.empty 0] fetched
  obtain m where "fst (restructureOpenings Map.empty 0 ?arg) = Inl (TypeError m)"
    "GET (Resolved ''token'') (listing_of [sample_requisition, malformed_requisition]) Map.empty 0 =
       Some (Inr \<lparr>body = ErrorBody m, status = 500\<rparr>)"
    by blast
  with thrown show ?thesis
    by simp
qed

subsection \<open>Department and link\<close>

text \<open>
  C7.  Suppose the transform returns the map \<open>jm\<close>.  A requisition of the input whose first
  organizational unit has no short name, and whose first posting instruction has not
  expired, is read as an opening of department \<open>Others\<close>, and the opening is in the list
  that the map, and the serialised answer, hold under the key \<open>Others\<close>.
\<close>

theorem restructureOpenings_Others:
  assumes "fst (restructureOpenings Date_parse currentDate arg) = Inr jm"
    and "jr \<in> set (jobRequisitions arg)"
    and "organizationalUnits jr = ou # ous"
    and "nameCode_shortName ou = None"
    and "postingInstructions jr = p # ps"
    and "\<not> expired Date_parse currentDate (posting_expireDate p)"
  shows "\<exists>item items.
           callback_read Date_parse currentDate jr = Inr (Some (''Others'', item)) \<and>
           map_of jm ''Others'' = Some items \<and> item \<in> set items \<and>
           (''Others'', items) \<in> set (Object_entries jm)"
proof -
  from assms(1,2) obtain x where "callback_read Date_parse currentDate jr = Inr x"
    by (auto simp: restructureOpenings_success)
  with assms(3-6) obtain item where
    item: "callback_read Date_parse currentDate jr = Inr (Some (''Others'', item))"
    by (auto simp: callback_read_def department_of_def split: list.splits if_splits)
  from produced_in_bucket [OF assms(1,2) item] item show ?thesis
    by (auto simp: set_Object_entries)
qed

theorem restructureOpenings_Others_witness:
  "\<exists>item items.
     callback_read Map.empty 0 others_requisition = Inr (Some (''Others'', item)) \<and>
     map_of [(''Others'', [unlinked_opening])] ''Others'' = Some items \<and> item \<in> set items \<and>
     (''Others'', items) \<in> set (Object_entries [(''Others'', [unlinked_opening])])"
proof -
  let ?arg = "\<lparr>jobRequisitions = [others_requisition], meta_totalNumber = 1\<rparr>"
  let ?p = "\<lparr>nameCode_codeValue = ''Developer'', posting_expireDate = None\<rparr>"
  have run: "fst (restructureOpenings Map.empty 0 ?arg) = Inr [(''Others'', [unlinked_opening])]"
    by code_simp
  have member: "others_requisition \<in> set (jobRequisitions ?arg)"
    by simp
  have unit: "organizationalUnits others_requisition = \<lparr>nameCode_shortName = None\<rparr> # []"
    "nameCode_shortName \<lparr>nameCode_shortName = None\<rparr> = None"
    by (simp_all add: others_requisition_def)
  have posting: "postingInstructions others_requisition = ?p # []"
    by (simp add: others_requisition_def sample_requisition_def)
  have valid: "\<not> expired Map.empty 0 (posting_expireDate ?p)"
    by (simp add: expired_def)
  from restructureOpenings_Others [OF run member unit posting valid]
  show ?thesis .
qed

text \<open>
  C8.  When the callback reads a requisition as an opening, the link of the opening is the
  \<open>href\<close> of the first of the requisition's links, in input order, whose title is exactly
  \<open>HL External Career Center\<close>, and the empty string when no link has that title.  That
  opening is the one which the returned map lists under the department.
\<close>

theorem callback_openingLink:
  assumes "callback_read Date_parse currentDate jr = Inr (Some (d, item))"
  shows "(\<forall>pre l post.
            links jr = pre @ l # post \<and> title l = ''HL External Career Center'' \<and>
            (\<forall>x\<in>set pre. title x \<noteq> ''HL External Career Center'') \<longrightarrow>
              openingLink item = href l) \<and>
         ((\<forall>l\<in>set (links jr). title l \<noteq> ''HL External Career Center'') \<longrightarrow>
            openingLink item = []) \<and>
         (\<forall>arg jm.
            jr \<in> set (jobRequisitions arg) \<and>
            fst (restructureOpenings Date_parse currentDate arg) = Inr jm \<longrightarrow>
              (\<exists>items. map_of jm d = Some items \<and> item \<in> set items))"
proof (intro conjI allI impI)
  from callback_read_Some [OF assms]
  have link: "openingLink item = openingLink_of (links jr)" by blast
  {
    fix pre l post
    assume "links jr = pre @ l # post \<and> title l = ''HL External Career Center'' \<and>
            (\<forall>x\<in>set pre. title x \<noteq> ''HL External Career Center'')"
    then have "List.find (\<lambda>link. title link = ''HL External Career Center'') (links jr) = Some l"
      by (simp add: find_first)
    then show "openingLink item = href l"
      by (simp add: link openingLink_of_def)
  }
  {
    assume "\<forall>l\<in>set (links jr). title l \<noteq> ''HL External Career Center''"
    then have "List.find (\<lambda>link. title link = ''HL External Career Center'') (links jr) = None"
      by (simp add: find_None_iff)
    then show "openingLink item = []"
      by (simp add: link openingLink_of_def)
  }
  {
    fix arg jm
    assume "jr \<in> set (jobRequisitions arg) \<and>
            fst (restructureOpenings Date_parse currentDate arg) = Inr jm"
    with produced_in_bucket [of Date_parse currentDate arg jm jr d item] assms
    show "\<exists>items. map_of jm d = Some items \<and> item \<in> set items"
      by blast
  }
qed

text \<open>
  Three links, the second and the third with the title looked for: the second is taken.
  No link at all: the empty string.
\<close>

theorem callback_openingLink_witness:
  "callback_read Map.empty 0 linked_requisition = Inr (Some (''Engineering'', sample_opening)) \<and>
   openingLink sample_opening = ''https://example.org/1'' \<and>
   callback_read Map.empty 0 others_requisition = Inr (Some (''Others'', unlinked_opening)) \<and>
   openingLink unlinked_opening = []"
proof -
  let ?l0 = "\<lparr>title = ''Internal Career Center'', href = ''https://example.org/0''\<rparr>"
  let ?l1 = "\<lparr>title = ''HL External Career Center'', href = ''https://example.org/1''\<rparr>"
  let ?l2 = "\<lparr>title = ''HL External Career Center'', href = ''https://example.org/2''\<rparr>"
  have linked: "callback_read Map.empty 0 linked_requisition =
                  Inr (Some (''Engineering'', sample_opening))"
    by code_simp
  have found: "links linked_requisition = [?l0] @ ?l1 # [?l2] \<and>
      title ?l1 = ''HL External Career Center'' \<and>
      (\<forall>x\<in>set [?l0]. title x \<noteq> ''HL External Career Center'')"
    by (simp add: linked_requisition_def)
  have unlinked: "callback_read Map.empty 0 others_requisition =
                    Inr (Some (''Others'', unlinked_opening))"
    by code_simp
  have none: "\<forall>l\<in>set (links others_requisition). title l \<noteq> ''HL External Career Center''"
    by (simp add: others_requisition_def)
  from callback_openingLink [OF linked] found
  have "openingLink sample_opening = href ?l1"
    by blast
  moreover from callback_openingLink [OF unlinked] none
  have "openingLink unlinked_opening = []"
    by blast
  ultimately show ?thesis
    using linked unlinked by simp
qed

subsection \<open>Order of the output\<close>

text \<open>
  The claim C9 as stated fails.  An engineering requisition followed by one of department
  \<open>7\<close>: the key \<open>7\<close> is an array index, so the returned object enumerates it, and the
  answer of the handler lists it, before \<open>Engineering\<close>, against the order of first
  encounter.
\<close>

theorem restructureOpenings_order_counterexample:
  "fst (restructureOpenings Map.empty 0
          \<lparr>jobRequisitions = [sample_requisition, numbered_requisition], meta_totalNumber = 2\<rparr>) =
     Inr [(''Engineering'', [sample_opening]), (''7'', [sample_opening])] \<and>
   map fst (Object_entries [(''Engineering'', [sample_opening]), (''7'', [sample_opening])]) =
     [''7'', ''Engineering''] \<and>
   first_encounter
     (map fst (produced Map.empty 0 [sample_requisition, numbered_requisition])) =
     [''Engineering'', ''7''] \<and>
   GET (Resolved ''token'') (listing_of [sample_requisition, numbered_requisition]) Map.empty 0 =
     Some (Inr \<lparr>body = OpeningsBody [(''7'', [sample_opening]), (''Engineering'', [sample_opening])],
                status = 200\<rparr>)"
proof -
  have fetched: "fetchJobRequisitions (Resolved ''token'')
                   (listing_of [sample_requisition, numbered_requisition]) =
      Some (Inr \<lparr>jobRequisitions = [sample_requisition, numbered_requisition],
                 meta_totalNumber = 2\<rparr>, [0])"
    by (simp add: fetchJobRequisitions_def getAccessToken_def fetch_loop.simps listing_of_def)
  have run: "fst (restructureOpenings Map.empty 0
          \<lparr>jobRequisitions = [sample_requisition, numbered_requisition], meta_totalNumber = 2\<rparr>) =
     Inr [(''Engineering'', [sample_opening]), (''7'', [sample_opening])]"
    by code_simp
  have keys: "Object_entries [(''Engineering'', [sample_opening]), (''7'', [sample_opening])] =
      [(''7'', [sample_opening]), (''Engineering'', [sample_opening])]"
    by code_simp
  have encounter: "first_encounter
     (map fst (produced Map.empty 0 [sample_requisition, numbered_requisition])) =
     [''Engineering'', ''7'']"
    by code_simp
  show ?thesis
    by (simp add: GET_def NextResponse_json_def fetched run keys encounter)
qed

text \<open>
  C9, as the code has it.  Suppose the transform returns the map \<open>jm\<close>; let \<open>ps\<close> be the
  pairs of department and opening read from the input, in input order, and \<open>ks\<close> their
  departments in first-encounter order.  The keys of the returned object are enumerated
  with the array indices among \<open>ks\<close> first, in ascending numeric order, and the other
  departments after them in first-encounter order; when no department is an array index,
  the output is the grouping in first-encounter order.  Under each department stand the
  openings read for it, in input order, none dropped and none merged.
\<close>

theorem restructureOpenings_order:
  assumes "fst (restructureOpenings Date_parse currentDate arg) = Inr jm"
    and "ps = produced Date_parse currentDate (jobRequisitions arg)"
    and "ks = first_encounter (map fst ps)"
  shows "map fst (Object_entries jm) =
           sort_key index_value (filter is_array_index ks) @ filter (\<lambda>d. \<not> is_array_index d) ks \<and>
         ((\<forall>d\<in>set ks. \<not> is_array_index d) \<longrightarrow> Object_entries jm = grouped ps) \<and>
         (\<forall>(d, items)\<in>set (Object_entries jm). items = map snd (filter (\<lambda>p. fst p = d) ps))"
proof -
  from assms(1,2) have jm: "jm = grouped ps"
    by (simp add: restructureOpenings_success)
  have entries: "Object_entries jm =
      map (\<lambda>d. (d, bucket ps d))
        (sort_key index_value (filter is_array_index ks) @ filter (\<lambda>d. \<not> is_array_index d) ks)"
    unfolding jm assms(3) by (rule Object_entries_grouped)
  have keys: "map fst (Object_entries jm) =
      sort_key index_value (filter is_array_index ks) @ filter (\<lambda>d. \<not> is_array_index d) ks"
    unfolding entries by (simp add: comp_def)
  have plain: "Object_entries jm = grouped ps" if "\<forall>d\<in>set ks. \<not> is_array_index d"
  proof -
    from that have "filter is_array_index ks = []" "filter (\<lambda>d. \<not> is_array_index d) ks = ks"
      by (simp_all add: filter_empty_conv filter_id_conv)
    then show ?thesis
      unfolding entries by (simp add: grouped_def assms(3))
  qed
  have buckets: "\<forall>(d, items)\<in>set (Object_entries jm). items = map snd (filter (\<lambda>p. fst p = d) ps)"
    unfolding set_Object_entries jm by (auto simp: set_grouped bucket_def)
  from keys plain buckets show ?thesis by blast
qed

text \<open>
  Engineering, \<open>7\<close>, engineering again: \<open>7\<close> comes first, and the two
  engineering openings stay together in input order.  Without the numbered department the
  order is that of first encounter.
\<close>

theorem restructureOpenings_order_witness:
  "Object_entries
     [(''Engineering'', [sample_opening, sample_opening]), (''7'', [sample_opening])] =
     [(''7'', [sample_opening]), (''Engineering'', [sample_opening, sample_opening])] \<and>
   Object_entries [(''Others'', [unlinked_opening]), (''Engineering'', [sample_opening])] =
     [(''Others'', [unlinked_opening]), (''Engineering'', [sample_opening])]"
proof -
  let ?arg = "\<lparr>jobRequisitions = [sample_requisition, numbered_requisition, linked_requisition],
               meta_totalNumber = 3\<rparr>"
  let ?jm = "[(''Engineering'', [sample_opening, sample_opening]), (''7'', [sample_opening])]"
  let ?ps = "[(''Engineering'', sample_opening), (''7'', sample_opening),
              (''Engineering'', sample_opening)]"
  let ?ks = "[''Engineering'', ''7'']"
  have run: "fst (restructureOpenings Map.empty 0 ?arg) = Inr ?jm"
    by code_simp
  have ps: "?ps = produced Map.empty 0 (jobRequisitions ?arg)"
    by code_simp
  have ks: "?ks = first_encounter (map fst ?ps)"
    by code_simp
  have order: "sort_key index_value (filter is_array_index ?ks) @
                 filter (\<lambda>d. \<not> is_array_index d) ?ks = [''7'', ''Engineering'']"
    by code_simp
  from restructureOpenings_order [OF run ps ks]
  have "map fst (Object_entries ?jm) = [''7'', ''Engineering'']"
    "\<forall>(d, items)\<in>set (Object_entries ?jm). items = map snd (filter (\<lambda>p. fst p = d) ?ps)"
    unfolding order by blast+
  then have numbered: "Object_entries ?jm =
      [(''7'', [sample_opening]), (''Engineering'', [sample_opening, sample_opening])]"
    by (cases "Object_entries ?jm" rule: list.exhaust; force simp: Cons_eq_map_conv)
  let ?arg' = "\<lparr>jobRequisitions = [others_requisition, sample_requisition], meta_totalNumber = 2\<rparr>"
  let ?jm' = "[(''Others'', [unlinked_opening]), (''Engineering'', [sample_opening])]"
  let ?ps' = "[(''Others'', unlinked_opening), (''Engineering'', sample_opening)]"
  let ?ks' = "[''Others'', ''Engineering'']"
  have run': "fst (restructureOpenings Map.empty 0 ?arg') = Inr ?jm'"
    by code_simp
  have ps': "?ps' = produced Map.empty 0 (jobRequisitions ?arg')"
    by code_simp
  have ks': "?ks' = first_encounter (map fst ?ps')"
    by code_simp
  have plain: "\<forall>d\<in>set ?ks'. \<not> is_array_index d"
    by code_simp
  have grouped: "grouped ?ps' = ?jm'"
    by code_simp
  from restructureOpenings_order [OF run' ps' ks'] plain
  have "Object_entries ?jm' = grouped ?ps'"
    by blast
  with numbered show ?thesis
    by (simp add: grouped)
qed

subsection \<open>Purity\<close>

text \<open>
  C10.  The transform leaves its argument as it found it, whether it returns or throws,
  and a second run at the same current date, on the argument as the first run left it,
  gives the same result as the first.
\<close>

theorem restructureOpenings_pure:
  "snd (restructureOpenings Date_parse currentDate arg) = arg \<and>
   restructureOpenings Date_parse currentDate (snd (restructureOpenings Date_parse currentDate arg)) =
     restructureOpenings Date_parse currentDate arg"
  by (simp add: restructureOpenings_group_from)

theorem restructureOpenings_pure_witness:
  "snd (restructureOpenings sample_Date_parse sample_currentDate
          \<lparr>jobRequisitions = [sample_requisition, expired_requisition], meta_totalNumber = 2\<rparr>) =
     \<lparr>jobRequisitions = [sample_requisition, expired_requisition], meta_totalNumber = 2\<rparr> \<and>
   fst (restructureOpenings sample_Date_parse sample_currentDate
          (snd (restructureOpenings sample_Date_parse sample_currentDate
                  \<lparr>jobRequisitions = [sample_requisition, expired_requisition],
                   meta_totalNumber = 2\<rparr>))) =
     Inr [(''Engineering'', [sample_opening])]"
proof -
  let ?arg = "\<lparr>jobRequisitions = [sample_requisition, expired_requisition], meta_totalNumber = 2\<rparr>"
  have run: "fst (restructureOpenings sample_Date_parse sample_currentDate ?arg) =
               Inr [(''Engineering'', [sample_opening])]"
    by code_simp
  from restructureOpenings_pure [of sample_Date_parse sample_currentDate ?arg] run
  show ?thesis
    by simp
qed

end
